theory Spec2Isabelle
  imports Main "HOL-Library.Word"
begin

section \<open>JavaScript strings\<close>

text \<open>
  A JavaScript string is a sequence of UTF-16 code units. The place names of the table
  and the messages of the server are outside ASCII, so a string is a list of 16-bit
  words; \<open>ascii\<close> embeds an ASCII literal.
\<close>

type_synonym jsstring = "16 word list"

definition ascii :: "string \<Rightarrow> jsstring" where
  "ascii s = map (\<lambda>c. of_nat (of_char c)) s"

text \<open>
  \<open>String.prototype.toLowerCase\<close>. On the ASCII range it maps \<open>A\<close>..\<open>Z\<close> to
  \<open>a\<close>..\<open>z\<close>; U+212A (KELVIN SIGN) is the one code point outside ASCII whose lower
  case consists of ASCII characters only (it is \<open>k\<close>). Every other code unit outside
  ASCII is kept as it is: its lower case has a code unit outside ASCII again, so the
  simplification cannot change whether the result is one of the keys looked up below,
  which are all ASCII.
\<close>

definition lower_unit :: "16 word \<Rightarrow> 16 word" where
  "lower_unit c =
     (if 0x41 \<le> c \<and> c \<le> 0x5A then c + 0x20
      else if c = 0x212A then 0x6B
      else c)"

definition toLowerCase :: "jsstring \<Rightarrow> jsstring" where
  "toLowerCase s = map lower_unit s"

text \<open>
  \<open>String.prototype.toUpperCase\<close>, exact on ASCII strings (\<open>a\<close>..\<open>z\<close> to
  \<open>A\<close>..\<open>Z\<close>), which is where it is applied below: to the codes of the table.
\<close>

definition upper_unit :: "16 word \<Rightarrow> 16 word" where
  "upper_unit c = (if 0x61 \<le> c \<and> c \<le> 0x7A then c - 0x20 else c)"

definition toUpperCase :: "jsstring \<Rightarrow> jsstring" where
  "toUpperCase s = map upper_unit s"

text \<open>
  \<open>String.prototype.trim\<close> removes leading and trailing WhiteSpace and LineTerminator
  code points: TAB, LF, VT, FF, CR, SP, NBSP, U+1680, U+2000..U+200A, U+2028, U+2029,
  U+202F, U+205F, U+3000 and U+FEFF.
\<close>

definition isWhiteSpace :: "16 word \<Rightarrow> bool" where
  "isWhiteSpace c \<longleftrightarrow>
     c \<in> {0x09, 0x0A, 0x0B, 0x0C, 0x0D, 0x20, 0xA0, 0x1680, 0x2028, 0x2029, 0x202F, 0x205F,
           0x3000, 0xFEFF}
     \<or> (0x2000 \<le> c \<and> c \<le> 0x200A)"

definition trim :: "jsstring \<Rightarrow> jsstring" where
  "trim s = rev (dropWhile isWhiteSpace (rev (dropWhile isWhiteSpace s)))"

section \<open>Values, objects and the store\<close>

text \<open>
  The values that the registry can hand out: \<open>null\<close>, a string, or one of the built-in
  members that every plain object inherits from \<open>Object.prototype\<close> (named by its
  property name).
\<close>

datatype jsval = Null | Str jsstring | Builtin string

text \<open>JavaScript truthiness: \<open>null\<close> and the empty string are falsy, objects are truthy.\<close>

fun truthy :: "jsval \<Rightarrow> bool" where
  "truthy Null = False"
| "truthy (Str s) = (s \<noteq> [])"
| "truthy (Builtin n) = True"

text \<open>
  A plain object is the list of its own enumerable properties in property order (the
  order of insertion, for keys that are not array indices). Objects live in a store;
  a reference is an address, and \<open>next_ref\<close> is the first address not yet allocated.
\<close>

type_synonym obj = "(jsstring \<times> jsval) list"

type_synonym ref = nat

record store =
  objects :: "ref \<Rightarrow> obj"
  next_ref :: ref

text \<open>
  The properties of \<open>Object.prototype\<close>, which a property read on a plain object
  reaches when the object has no own property of that name. \<open>__proto__\<close> reads the
  prototype itself, the others are functions.
\<close>

definition object_prototype :: "string list" where
  "object_prototype =
     [''constructor'', ''__defineGetter__'', ''__defineSetter__'', ''hasOwnProperty'',
      ''__lookupGetter__'', ''__lookupSetter__'', ''isPrototypeOf'', ''propertyIsEnumerable'',
      ''toString'', ''valueOf'', ''__proto__'', ''toLocaleString'']"

text \<open>The property read \<open>o[k]\<close>; \<open>None\<close> is \<open>undefined\<close>.\<close>

definition get_prop :: "obj \<Rightarrow> jsstring \<Rightarrow> jsval option" where
  "get_prop ob k =
     (case map_of ob k of
        Some v \<Rightarrow> Some v
      | None \<Rightarrow> map_of (map (\<lambda>n. (ascii n, Builtin n)) object_prototype) k)"

section \<open>locations.js\<close>

definition locations :: obj where
  "locations =
     [(ascii ''taipei'', Str [0x53F0, 0x5317, 0x5E02]),
      (ascii ''newtaipei'', Str [0x65B0, 0x5317, 0x5E02]),
      (ascii ''taoyuan'', Str [0x6843, 0x5712, 0x5E02]),
      (ascii ''hsinchu'', Str [0x65B0, 0x7AF9, 0x5E02]),
      (ascii ''hsinchucounty'', Str [0x65B0, 0x7AF9, 0x7E23]),
      (ascii ''miaoli'', Str [0x82D7, 0x6817, 0x7E23]),
      (ascii ''taichung'', Str [0x53F0, 0x4E2D, 0x5E02]),
      (ascii ''nantou'', Str [0x5357, 0x6295, 0x7E23]),
      (ascii ''changhua'', Str [0x5F70, 0x5316, 0x7E23]),
      (ascii ''yunlin'', Str [0x96F2, 0x6797, 0x7E23]),
      (ascii ''chiayi'', Str [0x5609, 0x7FA9, 0x5E02]),
      (ascii ''chiayi_county'', Str [0x5609, 0x7FA9, 0x7E23]),
      (ascii ''tainan'', Str [0x53F0, 0x5357, 0x5E02]),
      (ascii ''kaohsiung'', Str [0x9AD8, 0x96C4, 0x5E02]),
      (ascii ''pingtung'', Str [0x5C4F, 0x6771, 0x7E23]),
      (ascii ''yilan'', Str [0x5B9C, 0x862D, 0x7E23]),
      (ascii ''taitung'', Str [0x53F0, 0x6771, 0x7E23]),
      (ascii ''hualien'', Str [0x82B1, 0x84EE, 0x7E23]),
      (ascii ''penghu'', Str [0x6F8E, 0x6E56, 0x7E23]),
      (ascii ''kinmen'', Str [0x91D1, 0x9580, 0x7E23]),
      (ascii ''lienchiang'', Str [0x9023, 0x6C5F, 0x7E23])]"

text \<open>
  The module constant \<open>locations\<close> refers to the table object, allocated when the
  module is loaded.
\<close>

definition locations_ref :: ref where
  "locations_ref = 0"

definition module_store :: store where
  "module_store = \<lparr>objects = (\<lambda>r. []) (locations_ref := locations), next_ref = 1\<rparr>"

text \<open>\<open>getLocationName(code)\<close>; the argument \<open>None\<close> is \<open>null\<close> (or \<open>undefined\<close>).\<close>

definition getLocationName :: "store \<Rightarrow> jsstring option \<Rightarrow> jsval" where
  "getLocationName st code =
     (case code of
        None \<Rightarrow> Null
      | Some c \<Rightarrow>
          if c = [] then Null
          else
            let normalizedCode = trim (toLowerCase c) in
            (case get_prop (objects st locations_ref) normalizedCode of
               None \<Rightarrow> Null
             | Some v \<Rightarrow> if truthy v then v else Null))"

definition isValidLocation :: "store \<Rightarrow> jsstring option \<Rightarrow> bool" where
  "isValidLocation st code \<longleftrightarrow> getLocationName st code \<noteq> Null"

text \<open>\<open>Object.keys(locations)\<close>.\<close>

definition getAllLocationCodes :: "store \<Rightarrow> jsstring list" where
  "getAllLocationCodes st = map fst (objects st locations_ref)"

text \<open>
  \<open>{ ...locations }\<close> allocates a new object holding the own properties of the table
  and returns the reference to it.
\<close>

definition getAllLocations :: "store \<Rightarrow> ref \<times> store" where
  "getAllLocations st =
     (next_ref st,
      st\<lparr>objects := (objects st) (next_ref st := objects st locations_ref),
         next_ref := Suc (next_ref st)\<rparr>)"

section \<open>server.js: the upstream response\<close>

text \<open>
  The JSON document that the provider returns, in the shape the provider documents: a
  list of location records, each with a list of weather elements, each with a list of
  time entries. The lists may be empty or of different lengths; a document of another
  shape is outside the model.
\<close>

record cwa_parameter =
  parameterName :: jsstring

record cwa_time =
  startTime :: jsstring
  endTime :: jsstring
  parameter :: cwa_parameter

record cwa_element =
  elementName :: jsstring
  time :: "cwa_time list"

record cwa_location =
  locationName :: jsstring
  weatherElement :: "cwa_element list"

record cwa_records =
  datasetDescription :: jsstring
  location :: "cwa_location list"

record cwa_data =
  records :: cwa_records

record axios_response =
  data :: cwa_data

text \<open>
  The call \<open>axios.get(url, { params })\<close>: the request that goes out, and what the promise
  settles to. A rejection carries the fields of the error object that the handler reads:
  \<open>status\<close>, \<open>message\<close> and \<open>response\<close> (present when the provider answered with an HTTP
  error), with the \<open>message\<close> field of the payload of that response.
\<close>

record request =
  url :: jsstring
  param_Authorization :: jsstring
  param_locationName :: jsval

record error_data =
  data_message :: "jsstring option"

record error_response =
  response_status :: nat
  response_data :: error_data

record axios_error =
  error_status :: "nat option"
  error_message :: jsstring
  error_response :: "error_response option"

datatype axios_outcome = Resolved axios_response | Rejected axios_error

section \<open>server.js: getWeather\<close>

record forecast =
  startTime :: jsstring
  endTime :: jsstring
  weather :: jsstring
  rain :: jsstring
  minTemp :: jsstring
  maxTemp :: jsstring
  comfort :: jsstring
  windSpeed :: jsstring

record weather_report =
  city :: jsstring
  updateTime :: jsstring
  forecasts :: "forecast list"

text \<open>
  What \<open>getWeather\<close> can throw: one of its two object literals \<open>{ status, error, message }\<close>,
  the rejection of the request, or the \<open>TypeError\<close> of reading a property of
  \<open>undefined\<close> (with the name of the property).
\<close>

datatype thrown =
    Thrown nat jsstring jsstring
  | AxiosError axios_error
  | TypeError string

definition CWA_API_BASE_URL :: jsstring where
  "CWA_API_BASE_URL = ascii ''https://opendata.cwa.gov.tw/api''"

text \<open>
  The string that a template literal puts in for a value: a string is itself; the
  built-in members are the function \<open>Object\<close>, \<open>Object.prototype\<close> and native functions.
\<close>

fun template_string :: "jsval \<Rightarrow> jsstring" where
  "template_string (Str s) = s"
| "template_string Null = ascii ''null''"
| "template_string (Builtin n) =
     (if n = ''constructor'' then ascii ''function Object() { [native code] }''
      else if n = ''__proto__'' then ascii ''[object Object]''
      else ascii (''function '' @ n @ ''() { [native code] }''))"

text \<open>
  The body of \<open>weatherElements.forEach\<close> at time index \<open>i\<close>: the read
  \<open>element.time[i].parameter\<close> throws when \<open>element.time[i]\<close> is \<open>undefined\<close>.
\<close>

definition forEach_body :: "nat \<Rightarrow> forecast \<Rightarrow> cwa_element \<Rightarrow> thrown + forecast" where
  "forEach_body i fc element =
     (if i < length (time element) then
        let v = parameter (time element ! i) in
        Inr (if elementName element = ascii ''Wx'' then fc\<lparr>weather := parameterName v\<rparr>
             else if elementName element = ascii ''PoP''
               then fc\<lparr>rain := parameterName v @ ascii ''%''\<rparr>
             else if elementName element = ascii ''MinT''
               then fc\<lparr>minTemp := parameterName v @ [0xB0, 0x43]\<rparr>
             else if elementName element = ascii ''MaxT''
               then fc\<lparr>maxTemp := parameterName v @ [0xB0, 0x43]\<rparr>
             else if elementName element = ascii ''CI'' then fc\<lparr>comfort := parameterName v\<rparr>
             else if elementName element = ascii ''WS'' then fc\<lparr>windSpeed := parameterName v\<rparr>
             else fc)
      else Inl (TypeError ''parameter''))"

fun forEach :: "nat \<Rightarrow> forecast \<Rightarrow> cwa_element list \<Rightarrow> thrown + forecast" where
  "forEach i fc [] = Inr fc"
| "forEach i fc (element # rest) =
     (case forEach_body i fc element of
        Inl e \<Rightarrow> Inl e
      | Inr fc' \<Rightarrow> forEach i fc' rest)"

text \<open>
  The object \<open>forecast\<close> as the loop body creates it at index \<open>i\<close>; \<open>first\<close> is
  \<open>weatherElements[0]\<close>.
\<close>

definition initial_forecast :: "cwa_element \<Rightarrow> nat \<Rightarrow> forecast" where
  "initial_forecast first i =
     \<lparr>startTime = cwa_time.startTime (time first ! i),
      endTime = cwa_time.endTime (time first ! i),
      weather = [], rain = [], minTemp = [], maxTemp = [],
      comfort = [], windSpeed = []\<rparr>"

text \<open>
  The loop \<open>for (let i = 0; i < timeCount; i++)\<close>, from index \<open>i\<close> on; \<open>acc\<close> is the
  list of the forecasts pushed so far.
\<close>

function for_loop ::
  "cwa_element list \<Rightarrow> cwa_element \<Rightarrow> nat \<Rightarrow> nat \<Rightarrow> forecast list \<Rightarrow> thrown + forecast list"
where
  "for_loop weatherElements first timeCount i acc =
     (if i < timeCount then
        (case forEach i (initial_forecast first i) weatherElements of
           Inl e \<Rightarrow> Inl e
         | Inr fc \<Rightarrow> for_loop weatherElements first timeCount (Suc i) (acc @ [fc]))
      else Inr acc)"
  by pat_completeness auto
termination
  by (relation "measure (\<lambda>(es, f, n, i, acc). n - i)") auto

declare for_loop.simps [simp del]

text \<open>Lines 52 to 113: from the response to the report.\<close>

definition normalize_response :: "jsval \<Rightarrow> axios_response \<Rightarrow> thrown + weather_report" where
  "normalize_response loc response =
     (case location (records (data response)) of
        [] \<Rightarrow>
          Inl (Thrown 404 [0x67E5, 0x7121, 0x8CC7, 0x6599]
                 ([0x7121, 0x6CD5, 0x53D6, 0x5F97, 0x20] @ template_string loc
                  @ [0x20, 0x7684, 0x5929, 0x6C23, 0x8CC7, 0x6599]))
      | locationData # others \<Rightarrow>
          (case weatherElement locationData of
             [] \<Rightarrow> Inl (TypeError ''time'')
           | first # rest \<Rightarrow>
               (case for_loop (weatherElement locationData) first (length (time first)) 0 [] of
                  Inl e \<Rightarrow> Inl e
                | Inr fs \<Rightarrow>
                    Inr \<lparr>city = locationName locationData,
                         updateTime = datasetDescription (records (data response)),
                         forecasts = fs\<rparr>)))"

text \<open>
  \<open>getWeather(location)\<close>. \<open>key\<close> is \<open>process.env.CWA_API_KEY\<close> (\<open>None\<close> when not set),
  \<open>axios_get\<close> the provider. The result is the list of requests sent, and what the
  function throws (\<open>Inl\<close>) or returns (\<open>Inr\<close>). An argument \<open>None\<close> is \<open>undefined\<close>
  and takes the default.
\<close>

text \<open>The object thrown at line 33, when no key is configured.\<close>

definition missing_key_error :: thrown where
  "missing_key_error =
     Thrown 500 [0x4F3A, 0x670D, 0x5668, 0x8A2D, 0x5B9A, 0x932F, 0x8AA4]
       [0x8ACB, 0x5728, 0x20, 0x2E, 0x65, 0x6E, 0x76, 0x20, 0x6A94, 0x6848, 0x4E2D,
        0x8A2D, 0x5B9A, 0x20, 0x43, 0x57, 0x41, 0x5F, 0x41, 0x50, 0x49, 0x5F, 0x4B,
        0x45, 0x59]"

definition getWeather ::
  "jsstring option \<Rightarrow> (request \<Rightarrow> axios_outcome) \<Rightarrow> jsval option
   \<Rightarrow> request list \<times> (thrown + weather_report)"
where
  "getWeather key axios_get arg =
     (let loc = (case arg of None \<Rightarrow> Str [0x5B9C, 0x862D, 0x7E23] | Some v \<Rightarrow> v) in
      case key of
        None \<Rightarrow> ([], Inl missing_key_error)
      | Some k \<Rightarrow>
          if k = [] then ([], Inl missing_key_error)
          else
            let rq = \<lparr>url = CWA_API_BASE_URL @ ascii ''/v1/rest/datastore/F-C0032-001'',
                      param_Authorization = k,
                      param_locationName = loc\<rparr> in
            (case axios_get rq of
               Rejected err \<Rightarrow> ([rq], Inl (AxiosError err))
             | Resolved response \<Rightarrow> ([rq], normalize_response loc response)))"

section \<open>server.js: the routes\<close>

text \<open>
  A response: the status and the JSON body, which is \<open>{ success: true, data }\<close> or
  \<open>{ error, message, details }\<close> (a field \<open>None\<close> is \<open>undefined\<close>, left out of the JSON).
\<close>

datatype response_body =
    Success weather_report
  | Failure "jsstring option" "jsstring option" "error_data option"

record http_response =
  status_code :: nat
  body :: response_body

record express_request =
  params_location :: "jsstring option"

definition server_error :: http_response where
  "server_error =
     \<lparr>status_code = 500,
      body = Failure (Some [0x4F3A, 0x670D, 0x5668, 0x932F, 0x8AA4])
               (Some [0x7121, 0x6CD5, 0x53D6, 0x5F97, 0x5929, 0x6C23, 0x8CC7, 0x6599, 0xFF0C,
                      0x8ACB, 0x7A0D, 0x5F8C, 0x518D, 0x8A66])
               None\<rparr>"

text \<open>
  The \<open>catch\<close> block of \<open>handleGetWeather\<close>: the branch for an error with a truthy
  \<open>status\<close>, the branch for one with a \<open>response\<close>, and the rest.
\<close>

definition response_branch :: "axios_error \<Rightarrow> http_response" where
  "response_branch err =
     (case error_response err of
        Some r \<Rightarrow>
          \<lparr>status_code = response_status r,
           body = Failure (Some [0x43, 0x57, 0x41, 0x20, 0x41, 0x50, 0x49, 0x20, 0x932F, 0x8AA4])
                    (Some (case data_message (response_data r) of
                             None \<Rightarrow> [0x7121, 0x6CD5, 0x53D6, 0x5F97, 0x5929, 0x6C23, 0x8CC7, 0x6599]
                           | Some m \<Rightarrow>
                               if m = []
                               then [0x7121, 0x6CD5, 0x53D6, 0x5F97, 0x5929, 0x6C23, 0x8CC7, 0x6599]
                               else m))
                    (Some (response_data r))\<rparr>
      | None \<Rightarrow> server_error)"

fun catch_block :: "thrown \<Rightarrow> http_response" where
  "catch_block (Thrown st er msg) =
     (if st \<noteq> 0 then \<lparr>status_code = st, body = Failure (Some er) (Some msg) None\<rparr>
      else server_error)"
| "catch_block (AxiosError err) =
     (case error_status err of
        None \<Rightarrow> response_branch err
      | Some st \<Rightarrow>
          if st \<noteq> 0
          then \<lparr>status_code = st, body = Failure None (Some (error_message err)) None\<rparr>
          else response_branch err)"
| "catch_block (TypeError p) = server_error"

definition handleGetWeather ::
  "store \<Rightarrow> jsstring option \<Rightarrow> (request \<Rightarrow> axios_outcome) \<Rightarrow> express_request
   \<Rightarrow> request list \<times> http_response"
where
  "handleGetWeather st key axios_get req =
     (let param = (case params_location req of
                     None \<Rightarrow> ascii ''yilan''
                   | Some p \<Rightarrow> if p = [] then ascii ''yilan'' else p);
          loc = (if isValidLocation st (Some param) then getLocationName st (Some param)
                 else Str param)
      in case getWeather key axios_get (Some loc) of
           (sent, Inr weatherData) \<Rightarrow> (sent, \<lparr>status_code = 200, body = Success weatherData\<rparr>)
         | (sent, Inl err) \<Rightarrow> (sent, catch_block err))"

text \<open>\<open>app.get("/api/weather/kaohsiung")\<close>.\<close>

definition kaohsiung_route ::
  "store \<Rightarrow> jsstring option \<Rightarrow> (request \<Rightarrow> axios_outcome) \<Rightarrow> express_request
   \<Rightarrow> request list \<times> http_response"
where
  "kaohsiung_route st key axios_get req =
     handleGetWeather st key axios_get (req\<lparr>params_location := Some (ascii ''kaohsiung'')\<rparr>)"

text \<open>
  \<open>app.get("/api/locations")\<close>: the body \<open>{ total, locations, codes }\<close>, with the
  properties of the object that \<open>getAllLocations\<close> returned, and the store afterwards.
\<close>

record locations_response =
  total :: nat
  locations_field :: obj
  codes :: "jsstring list"

definition locations_route :: "store \<Rightarrow> locations_response \<times> store" where
  "locations_route st =
     (let n = length (getAllLocationCodes st);
          (r, st') = getAllLocations st
      in (\<lparr>total = n, locations_field = objects st' r, codes = getAllLocationCodes st'\<rparr>, st'))"

section \<open>Callers that change an object they hold\<close>

text \<open>
  What a caller can do to the properties of an object it has a reference to:
  \<open>o[k] = v\<close> changes the own property \<open>k\<close> or adds it at the end, \<open>delete o[k]\<close> removes
  it. (An assignment to \<open>__proto__\<close> sets the prototype of that object and adds no
  property.)
\<close>

datatype mutation = Assign jsstring jsval | Delete jsstring

fun assign :: "jsstring \<Rightarrow> jsval \<Rightarrow> obj \<Rightarrow> obj" where
  "assign k v [] = [(k, v)]"
| "assign k v ((k', v') # ps) = (if k = k' then (k, v) # ps else (k', v') # assign k v ps)"

fun apply_mutation :: "mutation \<Rightarrow> obj \<Rightarrow> obj" where
  "apply_mutation (Assign k v) ob = (if k = ascii ''__proto__'' then ob else assign k v ob)"
| "apply_mutation (Delete k) ob = filter (\<lambda>p. fst p \<noteq> k) ob"

fun mutate :: "store \<Rightarrow> ref \<Rightarrow> mutation list \<Rightarrow> store" where
  "mutate st r [] = st"
| "mutate st r (m # ms) =
     mutate (st\<lparr>objects := (objects st) (r := apply_mutation m (objects st r))\<rparr>) r ms"

section \<open>Upstream fixtures\<close>

text \<open>A provider that answers every request with the same response.\<close>

definition fixture :: "axios_response \<Rightarrow> request \<Rightarrow> axios_outcome" where
  "fixture response rq = Resolved response"

definition entry :: "string \<Rightarrow> string \<Rightarrow> string \<Rightarrow> cwa_time" where
  "entry s e v =
     \<lparr>cwa_time.startTime = ascii s, cwa_time.endTime = ascii e,
      parameter = \<lparr>parameterName = ascii v\<rparr>\<rparr>"

definition payload :: "cwa_element list \<Rightarrow> axios_response" where
  "payload es =
     \<lparr>data = \<lparr>records = \<lparr>datasetDescription = ascii ''forecast'',
                          location = [\<lparr>locationName = [0x9AD8, 0x96C4, 0x5E02],
                                       weatherElement = es\<rparr>]\<rparr>\<rparr>\<rparr>"

definition wx_two :: cwa_element where
  "wx_two = \<lparr>elementName = ascii ''Wx'',
             time = [entry ''06:00'' ''18:00'' ''cloudy'', entry ''18:00'' ''06:00'' ''rain'']\<rparr>"

definition pop_two :: cwa_element where
  "pop_two = \<lparr>elementName = ascii ''PoP'',
              time = [entry ''06:00'' ''18:00'' ''20'', entry ''18:00'' ''06:00'' ''70'']\<rparr>"

definition pop_one :: cwa_element where
  "pop_one = \<lparr>elementName = ascii ''PoP'', time = [entry ''06:00'' ''18:00'' ''20'']\<rparr>"

definition uvi_two :: cwa_element where
  "uvi_two = \<lparr>elementName = ascii ''UVI'',
              time = [entry ''06:00'' ''18:00'' ''7'', entry ''18:00'' ''06:00'' ''0'']\<rparr>"

text \<open>The report for the record whose elements are \<open>pop_one\<close> and then \<open>wx_two\<close>.\<close>

definition one_forecast_report :: weather_report where
  "one_forecast_report =
     \<lparr>city = [0x9AD8, 0x96C4, 0x5E02], updateTime = ascii ''forecast'',
      forecasts = [\<lparr>startTime = ascii ''06:00'', endTime = ascii ''18:00'',
                    weather = ascii ''cloudy'', rain = ascii ''20%'', minTemp = [],
                    maxTemp = [], comfort = [], windSpeed = []\<rparr>]\<rparr>"

text \<open>No location record at all.\<close>

definition no_location :: axios_response where
  "no_location =
     \<lparr>data = \<lparr>records = \<lparr>datasetDescription = ascii ''forecast'', location = []\<rparr>\<rparr>\<rparr>"

section \<open>The registry\<close>

lemmas registry_defs =
  getLocationName_def module_store_def locations_ref_def locations_def get_prop_def
  object_prototype_def ascii_def trim_def toLowerCase_def lower_unit_def isWhiteSpace_def

lemmas route_defs =
  locations_route_def getAllLocations_def getAllLocationCodes_def module_store_def locations_def

text \<open>
  C3, as the code has it: the \<open>total\<close> of \<open>GET /api/locations\<close> is the number of entries
  of the table, in any store, and the table that the module builds has 21 entries.
\<close>

theorem locations_total_21:
  "total (fst (locations_route st)) = length (objects st locations_ref)
   \<and> total (fst (locations_route module_store)) = length locations
   \<and> length locations = 21"
  by (simp add: route_defs)

text \<open>C3, as stated, fails: the \<open>total\<close> that the route returns is not 22.\<close>

theorem locations_total_counterexample:
  "total (fst (locations_route module_store)) \<noteq> 22"
  by (simp add: route_defs)

text \<open>
  C4 at the code \<open>constructor\<close>, which is not a key of the table: the read
  \<open>locations[normalizedCode]\<close> finds the member inherited from \<open>Object.prototype\<close>, so
  \<open>getLocationName\<close> returns that function, not \<open>null\<close>, and \<open>isValidLocation\<close> is true.
\<close>

theorem getLocationName_constructor:
  "ascii ''constructor'' \<notin> set (getAllLocationCodes module_store)
   \<and> getLocationName module_store (Some (ascii ''constructor'')) = Builtin ''constructor''
   \<and> isValidLocation module_store (Some (ascii ''constructor''))"
  by (simp add: isValidLocation_def getAllLocationCodes_def registry_defs)

text \<open>
  What does hold of unknown codes: \<open>null\<close> and the empty string are not resolved, and
  neither is a code whose normal form is no key of the table and no member of
  \<open>Object.prototype\<close>.
\<close>

lemma getLocationName_unknown:
  "getLocationName st None = Null \<and> getLocationName st (Some []) = Null
   \<and> (get_prop (objects st locations_ref) (trim (toLowerCase c)) = None
        \<longrightarrow> getLocationName st (Some c) = Null \<and> \<not> isValidLocation st (Some c))"
  by (simp add: getLocationName_def isValidLocation_def)

subsection \<open>Case and surrounding white space\<close>

lemma lower_unit_white: "isWhiteSpace u \<Longrightarrow> lower_unit u = u"
  unfolding isWhiteSpace_def lower_unit_def by (auto; unat_arith)

lemma lower_upper_unit: "lower_unit (upper_unit u) = lower_unit u"
  unfolding lower_unit_def upper_unit_def by (auto; unat_arith)

lemma toLowerCase_toUpperCase: "toLowerCase (toUpperCase s) = toLowerCase s"
  by (simp add: toLowerCase_def toUpperCase_def lower_upper_unit)

lemma toLowerCase_white: "\<forall>c\<in>set l. isWhiteSpace c \<Longrightarrow> toLowerCase l = l"
  by (induction l) (simp_all add: toLowerCase_def lower_unit_white)

lemma toUpperCase_Nil: "toUpperCase s = [] \<longleftrightarrow> s = []"
  by (simp add: toUpperCase_def)

lemma trim_around:
  assumes l: "\<forall>c\<in>set l. isWhiteSpace c" and r: "\<forall>c\<in>set r. isWhiteSpace c"
  shows "trim (l @ x @ r) = trim x"
proof -
  have front: "dropWhile isWhiteSpace (l @ x @ r) = dropWhile isWhiteSpace (x @ r)"
    using l by simp
  show ?thesis
  proof (cases "\<forall>c\<in>set x. isWhiteSpace c")
    case True
    have all: "dropWhile isWhiteSpace (x @ r) = []"
      using True r by auto
    have none: "dropWhile isWhiteSpace x = []"
      using True by auto
    show ?thesis unfolding trim_def front all none by simp
  next
    case False
    then obtain c where "c \<in> set x" "\<not> isWhiteSpace c" by blast
    then have keep: "dropWhile isWhiteSpace (x @ r) = dropWhile isWhiteSpace x @ r"
      by simp
    have tail: "dropWhile isWhiteSpace (rev r @ ys) = dropWhile isWhiteSpace ys" for ys
      by (rule dropWhile_append2) (use r in auto)
    show ?thesis unfolding trim_def front keep by (simp add: tail)
  qed
qed

lemma normal_form_invariant:
  assumes "toLowerCase s' = toLowerCase s"
    and "\<forall>c\<in>set l. isWhiteSpace c" and "\<forall>c\<in>set r. isWhiteSpace c"
  shows "trim (toLowerCase (l @ s' @ r)) = trim (toLowerCase s)"
proof -
  have "toLowerCase (l @ s' @ r) = toLowerCase l @ toLowerCase s' @ toLowerCase r"
    by (simp add: toLowerCase_def)
  then have "toLowerCase (l @ s' @ r) = l @ toLowerCase s @ r"
    using assms by (simp add: toLowerCase_white)
  then show ?thesis using assms(2,3) by (simp add: trim_around)
qed

lemma getLocationName_upper:
  "getLocationName st (Some (toUpperCase s)) = getLocationName st (Some s)"
  by (simp add: getLocationName_def toLowerCase_toUpperCase toUpperCase_Nil)

lemma known_codes_resolve:
  "c \<in> set (getAllLocationCodes module_store)
   \<Longrightarrow> getLocationName module_store (Some c) \<noteq> Null"
  unfolding getAllLocationCodes_def module_store_def locations_ref_def locations_def
  by (simp, elim disjE) (simp_all add: registry_defs)

text \<open>
  C7: every code of the table resolves, and resolves to the same name in upper case;
  \<open>" TaiPei "\<close> resolves as \<open>"taipei"\<close> does; and in general a non-empty code resolves
  as any spelling of it does that has the same lower case, with white space around it.
\<close>

theorem getLocationName_case_whitespace:
  "(\<forall>c\<in>set (getAllLocationCodes module_store).
      getLocationName module_store (Some c) \<noteq> Null \<and>
      getLocationName module_store (Some (toUpperCase c)) = getLocationName module_store (Some c))
   \<and> getLocationName module_store (Some (ascii '' TaiPei '')) =
       getLocationName module_store (Some (ascii ''taipei''))
   \<and> (\<forall>st s s' l r.
         s \<noteq> [] \<and> toLowerCase s' = toLowerCase s \<and>
         (\<forall>c\<in>set l. isWhiteSpace c) \<and> (\<forall>c\<in>set r. isWhiteSpace c) \<longrightarrow>
         getLocationName st (Some (l @ s' @ r)) = getLocationName st (Some s))"
proof (intro conjI ballI allI impI)
  fix c
  assume "c \<in> set (getAllLocationCodes module_store)"
  then show "getLocationName module_store (Some c) \<noteq> Null"
    by (rule known_codes_resolve)
next
  fix c
  show "getLocationName module_store (Some (toUpperCase c)) = getLocationName module_store (Some c)"
    by (rule getLocationName_upper)
next
  show "getLocationName module_store (Some (ascii '' TaiPei '')) =
        getLocationName module_store (Some (ascii ''taipei''))"
    by (simp add: registry_defs)
next
  fix st s s' l r
  assume h: "s \<noteq> [] \<and> toLowerCase s' = toLowerCase s \<and>
    (\<forall>c\<in>set l. isWhiteSpace c) \<and> (\<forall>c\<in>set r. isWhiteSpace c)"
  then have "s' \<noteq> []" by (auto simp: toLowerCase_def)
  with h show "getLocationName st (Some (l @ s' @ r)) = getLocationName st (Some s)"
    by (simp add: getLocationName_def normal_form_invariant)
qed

theorem getLocationName_case_whitespace_witness:
  "ascii ''kaohsiung'' \<in> set (getAllLocationCodes module_store)
   \<and> getLocationName module_store (Some (toUpperCase (ascii ''kaohsiung''))) =
       Str [0x9AD8, 0x96C4, 0x5E02]
   \<and> getLocationName module_store (Some ([0x09, 0x20] @ ascii ''KaoHsiung'' @ [0x3000])) =
       Str [0x9AD8, 0x96C4, 0x5E02]"
proof -
  have mem: "ascii ''kaohsiung'' \<in> set (getAllLocationCodes module_store)"
    by (simp add: getAllLocationCodes_def module_store_def locations_ref_def locations_def)
  have val: "getLocationName module_store (Some (ascii ''kaohsiung'')) = Str [0x9AD8, 0x96C4, 0x5E02]"
    by (simp add: registry_defs)
  have low: "ascii ''kaohsiung'' \<noteq> [] \<and>
      toLowerCase (ascii ''KaoHsiung'') = toLowerCase (ascii ''kaohsiung'') \<and>
      (\<forall>c\<in>set [0x09, 0x20]. isWhiteSpace c) \<and> (\<forall>c\<in>set [0x3000]. isWhiteSpace c)"
    by (simp add: ascii_def toLowerCase_def lower_unit_def isWhiteSpace_def)
  note inv = getLocationName_case_whitespace
  from inv mem have "getLocationName module_store (Some (toUpperCase (ascii ''kaohsiung''))) =
      getLocationName module_store (Some (ascii ''kaohsiung''))"
    by blast
  moreover from inv low have "getLocationName module_store
      (Some ([0x09, 0x20] @ ascii ''KaoHsiung'' @ [0x3000])) =
      getLocationName module_store (Some (ascii ''kaohsiung''))"
    by blast
  ultimately show ?thesis using mem val by simp
qed

subsection \<open>The copy that getAllLocations returns\<close>

lemma mutate_other: "q \<noteq> r \<Longrightarrow> objects (mutate st r ms) q = objects st q"
  by (induction ms arbitrary: st) simp_all

lemma mutate_next_ref: "next_ref (mutate st r ms) = next_ref st"
  by (induction ms arbitrary: st) simp_all

text \<open>
  C9: the object that \<open>getAllLocations\<close> returns is a new one. Whatever assignments and
  deletions \<open>ms\<close> a caller makes on it, the table object is what it was, and
  \<open>getLocationName\<close>, \<open>getAllLocationCodes\<close> and \<open>getAllLocations\<close> give what they gave
  before (the last one again in a new object, with the same properties).
\<close>

theorem getAllLocations_defensive_copy:
  assumes "locations_ref < next_ref st"
    and "getAllLocations st = (r, st1)"
    and "st2 = mutate st1 r ms"
  shows "r \<noteq> locations_ref
    \<and> objects st1 r = objects st locations_ref
    \<and> objects st2 locations_ref = objects st locations_ref
    \<and> locations_ref < next_ref st2
    \<and> getLocationName st2 c = getLocationName st c
    \<and> isValidLocation st2 c = isValidLocation st c
    \<and> getAllLocationCodes st2 = getAllLocationCodes st
    \<and> objects (snd (getAllLocations st2)) (fst (getAllLocations st2))
        = objects (snd (getAllLocations st)) (fst (getAllLocations st))"
proof -
  have r: "r = next_ref st"
    and st1: "st1 = st\<lparr>objects := (objects st) (next_ref st := objects st locations_ref),
                       next_ref := Suc (next_ref st)\<rparr>"
    using assms(2) by (auto simp: getAllLocations_def)
  from r assms(1) have neq: "locations_ref \<noteq> r" by simp
  have same: "objects st2 locations_ref = objects st locations_ref"
    using neq by (simp add: assms(3) mutate_other) (simp add: st1 r)
  have nxt: "next_ref st2 = Suc (next_ref st)"
    by (simp add: assms(3) mutate_next_ref st1)
  have name: "getLocationName st2 c = getLocationName st c"
    unfolding getLocationName_def same by (rule refl)
  show ?thesis
    using neq same nxt name assms(1)
    by (simp add: isValidLocation_def getAllLocationCodes_def getAllLocations_def st1 r)
qed

theorem getAllLocations_defensive_copy_witness:
  "locations_ref < next_ref module_store
   \<and> getAllLocations module_store = (1, snd (getAllLocations module_store))
   \<and> getLocationName
        (mutate (snd (getAllLocations module_store)) 1
           [Assign (ascii ''taipei'') (Str (ascii ''x'')), Delete (ascii ''yilan'')])
        (Some (ascii ''taipei''))
      = Str [0x53F0, 0x5317, 0x5E02]
   \<and> map_of (objects (mutate (snd (getAllLocations module_store)) 1
           [Assign (ascii ''taipei'') (Str (ascii ''x'')), Delete (ascii ''yilan'')]) 1)
        (ascii ''taipei'')
      = Some (Str (ascii ''x''))"
proof -
  have lt: "locations_ref < next_ref module_store"
    by (simp add: module_store_def locations_ref_def)
  have ga: "getAllLocations module_store = (1, snd (getAllLocations module_store))"
    by (simp add: getAllLocations_def module_store_def)
  have val: "getLocationName module_store (Some (ascii ''taipei'')) = Str [0x53F0, 0x5317, 0x5E02]"
    by (simp add: registry_defs)
  have cp: "map_of (objects (mutate (snd (getAllLocations module_store)) 1
           [Assign (ascii ''taipei'') (Str (ascii ''x'')), Delete (ascii ''yilan'')]) 1)
        (ascii ''taipei'') = Some (Str (ascii ''x''))"
    by (simp add: getAllLocations_def module_store_def locations_ref_def locations_def ascii_def)
  from getAllLocations_defensive_copy [OF lt ga refl,
      of "[Assign (ascii ''taipei'') (Str (ascii ''x'')), Delete (ascii ''yilan'')]"
         "Some (ascii ''taipei'')"]
  have "getLocationName
        (mutate (snd (getAllLocations module_store)) 1
           [Assign (ascii ''taipei'') (Str (ascii ''x'')), Delete (ascii ''yilan'')])
        (Some (ascii ''taipei''))
      = getLocationName module_store (Some (ascii ''taipei''))"
    by blast
  with lt ga val cp show ?thesis by (simp only: simp_thms)
qed

section \<open>The normalizer\<close>

lemma names_distinct:
  "ascii ''Wx'' \<noteq> ascii ''PoP''" "ascii ''Wx'' \<noteq> ascii ''MinT''" "ascii ''Wx'' \<noteq> ascii ''MaxT''"
  "ascii ''Wx'' \<noteq> ascii ''CI''" "ascii ''Wx'' \<noteq> ascii ''WS''"
  "ascii ''PoP'' \<noteq> ascii ''MinT''" "ascii ''PoP'' \<noteq> ascii ''MaxT''"
  "ascii ''PoP'' \<noteq> ascii ''CI''" "ascii ''PoP'' \<noteq> ascii ''WS''"
  "ascii ''MinT'' \<noteq> ascii ''MaxT''" "ascii ''MinT'' \<noteq> ascii ''CI''" "ascii ''MinT'' \<noteq> ascii ''WS''"
  "ascii ''MaxT'' \<noteq> ascii ''CI''" "ascii ''MaxT'' \<noteq> ascii ''WS''"
  "ascii ''CI'' \<noteq> ascii ''WS''"
  by (simp_all add: ascii_def)

lemma forEach_body_Inr: "i < length (time e) \<Longrightarrow> \<exists>fc'. forEach_body i fc e = Inr fc'"
  by (simp add: forEach_body_def Let_def)

lemma forEach_body_Inl: "\<not> i < length (time e) \<Longrightarrow> forEach_body i fc e = Inl (TypeError ''parameter'')"
  by (simp add: forEach_body_def)

lemma forEach_Inr_iff:
  "(\<exists>fc'. forEach i fc els = Inr fc') \<longleftrightarrow> (\<forall>e\<in>set els. i < length (time e))"
proof (induction els arbitrary: fc)
  case Nil
  then show ?case by simp
next
  case (Cons e els)
  show ?case
  proof (cases "i < length (time e)")
    case True
    then obtain fc1 where "forEach_body i fc e = Inr fc1"
      using forEach_body_Inr by blast
    then show ?thesis using Cons.IH [of fc1] True by simp
  next
    case False
    then show ?thesis by (auto simp: forEach_body_Inl)
  qed
qed

lemma forEach_Inl: "forEach i fc els = Inl x \<Longrightarrow> x = TypeError ''parameter''"
proof (induction els arbitrary: fc)
  case Nil
  then show ?case by simp
next
  case (Cons e els)
  then show ?case
    by (cases "i < length (time e)")
      (auto simp: forEach_body_Inl dest: forEach_body_Inr [of i e fc] split: sum.splits)
qed

lemma for_loop_Inr:
  "for_loop els first n i acc = Inr fs \<Longrightarrow> i \<le> n \<Longrightarrow>
     length fs = length acc + (n - i) \<and> take (length acc) fs = acc \<and>
     (\<forall>j. i \<le> j \<and> j < n \<longrightarrow>
        forEach j (initial_forecast first j) els = Inr (fs ! (length acc + (j - i))))"
proof (induction els first n i acc rule: for_loop.induct)
  case (1 els first n i acc)
  show ?case
  proof (cases "i < n")
    case False
    with "1.prems" show ?thesis by (auto simp: for_loop.simps [of els first n i acc])
  next
    case True
    from "1.prems"(1) True obtain fc where
      fc: "forEach i (initial_forecast first i) els = Inr fc"
      and rec: "for_loop els first n (Suc i) (acc @ [fc]) = Inr fs"
      by (simp add: for_loop.simps [of els first n i acc] split: sum.splits)
    from "1.IH" [OF True fc rec] True
    have len: "length fs = length (acc @ [fc]) + (n - Suc i)"
      and tk: "take (length (acc @ [fc])) fs = acc @ [fc]"
      and rest: "\<forall>j. Suc i \<le> j \<and> j < n \<longrightarrow>
        forEach j (initial_forecast first j) els = Inr (fs ! (length (acc @ [fc]) + (j - Suc i)))"
      by simp_all
    have acc: "take (length acc) fs = acc"
    proof -
      have "take (length acc) (take (length (acc @ [fc])) fs) = take (length acc) (acc @ [fc])"
        by (simp only: tk)
      then show ?thesis by (simp add: min_def)
    qed
    have at_i: "fs ! length acc = fc"
    proof -
      have "(take (length (acc @ [fc])) fs) ! length acc = (acc @ [fc]) ! length acc"
        by (simp only: tk)
      then show ?thesis by simp
    qed
    have "forEach j (initial_forecast first j) els = Inr (fs ! (length acc + (j - i)))"
      if j: "i \<le> j \<and> j < n" for j
    proof (cases "j = i")
      case True
      then show ?thesis using fc at_i by simp
    next
      case False
      with j have "Suc i \<le> j \<and> j < n" by simp
      with rest have later: "forEach j (initial_forecast first j) els
          = Inr (fs ! (length (acc @ [fc]) + (j - Suc i)))" by blast
      have idx: "length (acc @ [fc]) + (j - Suc i) = length acc + (j - i)"
        using j False by (simp; arith)
      from later show ?thesis by (simp only: idx)
    qed
    with len acc True show ?thesis by simp
  qed
qed

lemma for_loop_total:
  "\<forall>e\<in>set els. n \<le> length (time e) \<Longrightarrow> \<exists>fs. for_loop els first n i acc = Inr fs"
proof (induction els first n i acc rule: for_loop.induct)
  case (1 els first n i acc)
  show ?case
  proof (cases "i < n")
    case False
    then show ?thesis by (simp add: for_loop.simps [of els first n i acc])
  next
    case True
    with "1.prems" have "\<forall>e\<in>set els. i < length (time e)" by auto
    then obtain fc where fc: "forEach i (initial_forecast first i) els = Inr fc"
      using forEach_Inr_iff by blast
    from "1.IH" [OF True fc "1.prems"] obtain fs where
      "for_loop els first n (Suc i) (acc @ [fc]) = Inr fs" by blast
    with True fc show ?thesis by (simp add: for_loop.simps [of els first n i acc])
  qed
qed

lemma for_loop_fails:
  "\<exists>e\<in>set els. length (time e) < n \<Longrightarrow> i < n \<Longrightarrow>
     for_loop els first n i acc = Inl (TypeError ''parameter'')"
proof (induction els first n i acc rule: for_loop.induct)
  case (1 els first n i acc)
  show ?case
  proof (cases "forEach i (initial_forecast first i) els")
    case (Inl x)
    then have "x = TypeError ''parameter''" by (rule forEach_Inl)
    with Inl "1.prems"(2) show ?thesis by (simp add: for_loop.simps [of els first n i acc])
  next
    case (Inr fc)
    then have "\<forall>e\<in>set els. i < length (time e)"
      using forEach_Inr_iff by blast
    with "1.prems"(1) have "Suc i < n" by fastforce
    from "1.IH" [OF "1.prems"(2) Inr "1.prems"(1) this] Inr "1.prems"(2)
    show ?thesis by (simp add: for_loop.simps [of els first n i acc])
  qed
qed

lemma forEach_times:
  "forEach i fc els = Inr fc' \<Longrightarrow>
     forecast.startTime fc' = forecast.startTime fc \<and> forecast.endTime fc' = forecast.endTime fc"
proof (induction els arbitrary: fc)
  case Nil
  then show ?case by simp
next
  case (Cons e els)
  then show ?case
    by (auto simp: forEach_body_def Let_def split: sum.splits if_splits)
qed

lemma forEach_weather:
  "forEach i fc els = Inr fc' \<Longrightarrow>
     weather fc' =
       (let ws = filter (\<lambda>e. elementName e = ascii ''Wx'') els
        in if ws = [] then weather fc else parameterName (parameter (time (last ws) ! i)))"
proof (induction els arbitrary: fc)
  case Nil
  then show ?case by simp
next
  case (Cons e els)
  then show ?case
    by (auto simp: forEach_body_def Let_def names_distinct split: sum.splits if_splits)
qed

lemma forEach_rain:
  "forEach i fc els = Inr fc' \<Longrightarrow>
     rain fc' =
       (let ws = filter (\<lambda>e. elementName e = ascii ''PoP'') els
        in if ws = [] then rain fc else parameterName (parameter (time (last ws) ! i)) @ ascii ''%'')"
proof (induction els arbitrary: fc)
  case Nil
  then show ?case by simp
next
  case (Cons e els)
  then show ?case
    by (auto simp: forEach_body_def Let_def names_distinct split: sum.splits if_splits)
qed

lemma forEach_minTemp:
  "forEach i fc els = Inr fc' \<Longrightarrow>
     minTemp fc' =
       (let ws = filter (\<lambda>e. elementName e = ascii ''MinT'') els
        in if ws = [] then minTemp fc else parameterName (parameter (time (last ws) ! i)) @ [0xB0, 0x43])"
proof (induction els arbitrary: fc)
  case Nil
  then show ?case by simp
next
  case (Cons e els)
  then show ?case
    by (auto simp: forEach_body_def Let_def names_distinct split: sum.splits if_splits)
qed

lemma forEach_maxTemp:
  "forEach i fc els = Inr fc' \<Longrightarrow>
     maxTemp fc' =
       (let ws = filter (\<lambda>e. elementName e = ascii ''MaxT'') els
        in if ws = [] then maxTemp fc else parameterName (parameter (time (last ws) ! i)) @ [0xB0, 0x43])"
proof (induction els arbitrary: fc)
  case Nil
  then show ?case by simp
next
  case (Cons e els)
  then show ?case
    by (auto simp: forEach_body_def Let_def names_distinct split: sum.splits if_splits)
qed

lemma forEach_comfort:
  "forEach i fc els = Inr fc' \<Longrightarrow>
     comfort fc' =
       (let ws = filter (\<lambda>e. elementName e = ascii ''CI'') els
        in if ws = [] then comfort fc else parameterName (parameter (time (last ws) ! i)))"
proof (induction els arbitrary: fc)
  case Nil
  then show ?case by simp
next
  case (Cons e els)
  then show ?case
    by (auto simp: forEach_body_def Let_def names_distinct split: sum.splits if_splits)
qed

lemma forEach_windSpeed:
  "forEach i fc els = Inr fc' \<Longrightarrow>
     windSpeed fc' =
       (let ws = filter (\<lambda>e. elementName e = ascii ''WS'') els
        in if ws = [] then windSpeed fc else parameterName (parameter (time (last ws) ! i)))"
proof (induction els arbitrary: fc)
  case Nil
  then show ?case by simp
next
  case (Cons e els)
  then show ?case
    by (auto simp: forEach_body_def Let_def names_distinct split: sum.splits if_splits)
qed


lemma forEach_body_other:
  "elementName e \<notin> {ascii ''Wx'', ascii ''PoP'', ascii ''MinT'', ascii ''MaxT'', ascii ''CI'', ascii ''WS''}
   \<Longrightarrow> i < length (time e) \<Longrightarrow> forEach_body i fc e = Inr fc"
  by (simp add: forEach_body_def)

lemma getWeather_sent:
  assumes "k \<noteq> []" and "fst (getWeather (Some k) axios_get (Some loc)) = [rq]"
    and "axios_get rq = Resolved response"
  shows "snd (getWeather (Some k) axios_get (Some loc)) = normalize_response loc response"
  using assms by (auto simp: getWeather_def Let_def split: axios_outcome.splits)

lemma normalize_Inr:
  assumes "location (records (data response)) = locationData # others"
    and "weatherElement locationData = first # rest"
  shows "normalize_response loc response = Inr rep \<longleftrightarrow>
     (\<exists>fs. for_loop (first # rest) first (length (time first)) 0 [] = Inr fs \<and>
        rep = \<lparr>city = locationName locationData,
               updateTime = datasetDescription (records (data response)),
               forecasts = fs\<rparr>)"
  using assms by (auto simp: normalize_response_def split: sum.splits)

lemma normalize_Inl:
  assumes "location (records (data response)) = locationData # others"
    and "weatherElement locationData = first # rest"
  shows "normalize_response loc response = Inl x \<longleftrightarrow>
     for_loop (first # rest) first (length (time first)) 0 [] = Inl x"
  using assms by (auto simp: normalize_response_def split: sum.splits)

lemmas fixture_defs = fixture_def payload_def entry_def wx_two_def pop_two_def pop_one_def
  uvi_two_def no_location_def

lemmas getWeather_eval = getWeather_def normalize_response_def for_loop.simps forEach_body_def
  initial_forecast_def CWA_API_BASE_URL_def ascii_def

lemma fixture_sent:
  "k \<noteq> [] \<Longrightarrow>
     fst (getWeather (Some k) (fixture response) (Some loc))
       = [\<lparr>url = CWA_API_BASE_URL @ ascii ''/v1/rest/datastore/F-C0032-001'',
           param_Authorization = k, param_locationName = loc\<rparr>]"
  by (simp add: getWeather_def fixture_def Let_def)

lemma payload_location:
  "location (records (data (payload es)))
     = \<lparr>locationName = [0x9AD8, 0x96C4, 0x5E02], weatherElement = es\<rparr> # []"
  by (simp add: payload_def)

subsection \<open>The number of forecasts\<close>

text \<open>
  C1, as stated, fails when \<open>Wx\<close> is not the first element: for a record whose elements
  are \<open>PoP\<close> with one time entry and then \<open>Wx\<close> with two, \<open>getWeather\<close> returns a
  report with one forecast.
\<close>

theorem forecast_count_counterexample:
  "location (records (data (payload [pop_one, wx_two])))
     = [\<lparr>locationName = [0x9AD8, 0x96C4, 0x5E02], weatherElement = [pop_one, wx_two]\<rparr>]
   \<and> elementName wx_two = ascii ''Wx''
   \<and> snd (getWeather (Some (ascii ''key'')) (fixture (payload [pop_one, wx_two]))
            (Some (Str [0x9AD8, 0x96C4, 0x5E02])))
      = Inr one_forecast_report
   \<and> length (forecasts one_forecast_report) = 1
   \<and> length (time wx_two) = 2
   \<and> length (forecasts one_forecast_report) \<noteq> length (time wx_two)"
  by (simp add: getWeather_eval fixture_defs one_forecast_report_def)

text \<open>
  C1, as the code has it: the loop runs over the time entries of the first weather
  element. A report that \<open>getWeather\<close> returns has as many forecasts as the first
  element of the first location record has time entries, which is no more than any
  element of the record has; and it does return a report when no other element has
  fewer time entries than the first.
\<close>

theorem forecast_count_first_element:
  assumes "k \<noteq> []"
    and "fst (getWeather (Some k) axios_get (Some loc)) = [rq]"
    and "axios_get rq = Resolved response"
    and "location (records (data response)) = locationData # others"
    and "weatherElement locationData = first # rest"
  shows "(\<forall>rep. snd (getWeather (Some k) axios_get (Some loc)) = Inr rep \<longrightarrow>
            length (forecasts rep) = length (time first) \<and>
            (\<forall>e\<in>set (weatherElement locationData). length (forecasts rep) \<le> length (time e)))
     \<and> ((\<forall>e\<in>set rest. length (time first) \<le> length (time e)) \<longrightarrow>
            (\<exists>rep. snd (getWeather (Some k) axios_get (Some loc)) = Inr rep \<and>
               length (forecasts rep) = length (time first)))"
proof -
  let ?n = "length (time first)"
  have res: "snd (getWeather (Some k) axios_get (Some loc)) = normalize_response loc response"
    using assms(1-3) by (rule getWeather_sent)
  have count: "length (forecasts rep) = ?n \<and> (\<forall>e\<in>set (first # rest). ?n \<le> length (time e))"
    if "normalize_response loc response = Inr rep" for rep
  proof -
    from that obtain fs where fs: "for_loop (first # rest) first ?n 0 [] = Inr fs"
      and rep: "forecasts rep = fs"
      using normalize_Inr [OF assms(4,5)] by auto
    from for_loop_Inr [OF fs] have len: "length fs = ?n" by simp
    have "?n \<le> length (time e)" if e: "e \<in> set (first # rest)" for e
    proof (rule ccontr)
      assume "\<not> ?n \<le> length (time e)"
      then have short: "length (time e) < ?n" by simp
      with e have "\<exists>e\<in>set (first # rest). length (time e) < ?n" by blast
      moreover from short have "0 < ?n" by (cases "time first") auto
      ultimately have "for_loop (first # rest) first ?n 0 [] = Inl (TypeError ''parameter'')"
        by (rule for_loop_fails)
      with fs show False by simp
    qed
    with len rep show ?thesis by simp
  qed
  have total: "\<exists>rep. normalize_response loc response = Inr rep \<and> length (forecasts rep) = ?n"
    if "\<forall>e\<in>set rest. ?n \<le> length (time e)"
  proof -
    from that have "\<forall>e\<in>set (first # rest). ?n \<le> length (time e)" by simp
    then obtain fs where fs: "for_loop (first # rest) first ?n 0 [] = Inr fs"
      using for_loop_total by blast
    then obtain rep where "normalize_response loc response = Inr rep"
      using normalize_Inr [OF assms(4,5)] by blast
    with count show ?thesis by blast
  qed
  show ?thesis unfolding res assms(5)
  proof (intro conjI allI impI)
    fix rep assume "normalize_response loc response = Inr rep"
    from count [OF this] show "length (forecasts rep) = ?n"
      and "\<forall>e\<in>set (first # rest). length (forecasts rep) \<le> length (time e)"
      by simp_all
  next
    assume "\<forall>e\<in>set rest. ?n \<le> length (time e)"
    then show "\<exists>rep. normalize_response loc response = Inr rep \<and> length (forecasts rep) = ?n"
      by (rule total)
  qed
qed


theorem forecast_count_first_element_witness:
  "ascii ''key'' \<noteq> []
   \<and> length (time wx_two) \<le> length (time uvi_two)
   \<and> length (time wx_two) \<le> length (time pop_two)
   \<and> (\<exists>rep. snd (getWeather (Some (ascii ''key'')) (fixture (payload [wx_two, uvi_two, pop_two]))
                  (Some (Str [0x9AD8, 0x96C4, 0x5E02]))) = Inr rep
          \<and> length (forecasts rep) = length (time wx_two))
   \<and> length (time wx_two) = 2"
proof -
  let ?rq = "\<lparr>url = CWA_API_BASE_URL @ ascii ''/v1/rest/datastore/F-C0032-001'',
              param_Authorization = ascii ''key'',
              param_locationName = Str [0x9AD8, 0x96C4, 0x5E02]\<rparr>"
  have k: "ascii ''key'' \<noteq> []" by (simp add: ascii_def)
  have sent: "fst (getWeather (Some (ascii ''key'')) (fixture (payload [wx_two, uvi_two, pop_two]))
                  (Some (Str [0x9AD8, 0x96C4, 0x5E02]))) = [?rq]"
    by (simp add: getWeather_def fixture_def ascii_def Let_def)
  have ans: "fixture (payload [wx_two, uvi_two, pop_two]) ?rq
      = Resolved (payload [wx_two, uvi_two, pop_two])"
    by (simp add: fixture_def)
  have loc: "location (records (data (payload [wx_two, uvi_two, pop_two])))
      = \<lparr>locationName = [0x9AD8, 0x96C4, 0x5E02], weatherElement = [wx_two, uvi_two, pop_two]\<rparr> # []"
    by (simp add: payload_def)
  have els: "weatherElement \<lparr>locationName = [0x9AD8, 0x96C4, 0x5E02],
      weatherElement = [wx_two, uvi_two, pop_two]\<rparr> = wx_two # [uvi_two, pop_two]"
    by simp
  have long: "\<forall>e\<in>set [uvi_two, pop_two]. length (time wx_two) \<le> length (time e)"
    by (simp add: wx_two_def uvi_two_def pop_two_def)
  have two: "length (time wx_two) = 2" by (simp add: wx_two_def)
  have each: "length (time wx_two) \<le> length (time uvi_two)"
    "length (time wx_two) \<le> length (time pop_two)"
    by (simp_all add: wx_two_def uvi_two_def pop_two_def)
  from forecast_count_first_element [OF k sent ans loc els] long
  have "\<exists>rep. snd (getWeather (Some (ascii ''key'')) (fixture (payload [wx_two, uvi_two, pop_two]))
                  (Some (Str [0x9AD8, 0x96C4, 0x5E02]))) = Inr rep
          \<and> length (forecasts rep) = length (time wx_two)"
    by blast
  with k each two show ?thesis by (intro conjI)
qed

subsection \<open>The fields of a forecast\<close>

text \<open>
  C2: in a report that \<open>getWeather\<close> returns, the forecast at index \<open>i\<close> has the times of
  the first element at \<open>i\<close>; each of its six fields holds the value at \<open>i\<close> of the element
  with the identifier of that field (of the last such element, should there be several),
  with \<open>%\<close> appended for \<open>PoP\<close> and the degree sign and \<open>C\<close> for \<open>MinT\<close> and \<open>MaxT\<close>, and
  is the empty string when the record has no such element; an element with any other
  identifier leaves the forecast as it is.
\<close>

theorem forecast_fields_routed:
  assumes "k \<noteq> []"
    and "fst (getWeather (Some k) axios_get (Some loc)) = [rq]"
    and "axios_get rq = Resolved response"
    and "location (records (data response)) = locationData # others"
    and "weatherElement locationData = first # rest"
    and "snd (getWeather (Some k) axios_get (Some loc)) = Inr rep"
    and "i < length (forecasts rep)"
  shows "forecast.startTime (forecasts rep ! i) = cwa_time.startTime (time first ! i)
    \<and> forecast.endTime (forecasts rep ! i) = cwa_time.endTime (time first ! i)
    \<and> weather (forecasts rep ! i) =
        (let ws = filter (\<lambda>e. elementName e = ascii ''Wx'') (weatherElement locationData)
         in if ws = [] then [] else parameterName (parameter (time (last ws) ! i)))
    \<and> rain (forecasts rep ! i) =
        (let ws = filter (\<lambda>e. elementName e = ascii ''PoP'') (weatherElement locationData)
         in if ws = [] then [] else parameterName (parameter (time (last ws) ! i)) @ ascii ''%'')
    \<and> minTemp (forecasts rep ! i) =
        (let ws = filter (\<lambda>e. elementName e = ascii ''MinT'') (weatherElement locationData)
         in if ws = [] then [] else parameterName (parameter (time (last ws) ! i)) @ [0xB0, 0x43])
    \<and> maxTemp (forecasts rep ! i) =
        (let ws = filter (\<lambda>e. elementName e = ascii ''MaxT'') (weatherElement locationData)
         in if ws = [] then [] else parameterName (parameter (time (last ws) ! i)) @ [0xB0, 0x43])
    \<and> comfort (forecasts rep ! i) =
        (let ws = filter (\<lambda>e. elementName e = ascii ''CI'') (weatherElement locationData)
         in if ws = [] then [] else parameterName (parameter (time (last ws) ! i)))
    \<and> windSpeed (forecasts rep ! i) =
        (let ws = filter (\<lambda>e. elementName e = ascii ''WS'') (weatherElement locationData)
         in if ws = [] then [] else parameterName (parameter (time (last ws) ! i)))
    \<and> (\<forall>e\<in>set (weatherElement locationData). i < length (time e))
    \<and> (\<forall>e fc. elementName e \<notin> {ascii ''Wx'', ascii ''PoP'', ascii ''MinT'', ascii ''MaxT'',
                                   ascii ''CI'', ascii ''WS''} \<and> i < length (time e)
          \<longrightarrow> forEach_body i fc e = Inr fc)"
proof -
  have "normalize_response loc response = Inr rep"
    using getWeather_sent [OF assms(1-3)] assms(6) by simp
  then obtain fs where fs: "for_loop (first # rest) first (length (time first)) 0 [] = Inr fs"
    and rep: "forecasts rep = fs"
    using normalize_Inr [OF assms(4,5)] by auto
  from for_loop_Inr [OF fs] have len: "length fs = length (time first)"
    and at: "\<forall>j. j < length (time first) \<longrightarrow>
        forEach j (initial_forecast first j) (first # rest) = Inr (fs ! j)"
    by simp_all
  from assms(7) rep len have i: "i < length (time first)" by simp
  with at have run: "forEach i (initial_forecast first i) (weatherElement locationData)
      = Inr (forecasts rep ! i)"
    by (simp add: rep assms(5))
  then have inrange: "\<forall>e\<in>set (weatherElement locationData). i < length (time e)"
    using forEach_Inr_iff by blast
  have other: "\<forall>e fc. elementName e \<notin> {ascii ''Wx'', ascii ''PoP'', ascii ''MinT'', ascii ''MaxT'',
                                   ascii ''CI'', ascii ''WS''} \<and> i < length (time e)
          \<longrightarrow> forEach_body i fc e = Inr fc"
    using forEach_body_other by blast
  note fields = forEach_times [OF run] forEach_weather [OF run] forEach_rain [OF run]
    forEach_minTemp [OF run] forEach_maxTemp [OF run] forEach_comfort [OF run]
    forEach_windSpeed [OF run]
  show ?thesis
    using fields inrange other by (simp add: initial_forecast_def Let_def)
qed

theorem forecast_fields_routed_witness:
  "ascii ''key'' \<noteq> [] \<and> (1::nat) < 2
   \<and> snd (getWeather (Some (ascii ''key'')) (fixture (payload [wx_two, uvi_two, pop_two]))
            (Some (Str [0x9AD8, 0x96C4, 0x5E02])))
      = Inr \<lparr>city = [0x9AD8, 0x96C4, 0x5E02], updateTime = ascii ''forecast'',
             forecasts =
               [\<lparr>startTime = ascii ''06:00'', endTime = ascii ''18:00'',
                 weather = ascii ''cloudy'', rain = ascii ''20%'', minTemp = [],
                 maxTemp = [], comfort = [], windSpeed = []\<rparr>,
                \<lparr>startTime = ascii ''18:00'', endTime = ascii ''06:00'',
                 weather = ascii ''rain'', rain = ascii ''70%'', minTemp = [],
                 maxTemp = [], comfort = [], windSpeed = []\<rparr>]\<rparr>
   \<and> rain (\<lparr>startTime = ascii ''18:00'', endTime = ascii ''06:00'',
                 weather = ascii ''rain'', rain = ascii ''70%'', minTemp = [],
                 maxTemp = [], comfort = [], windSpeed = []\<rparr>)
      = parameterName (parameter (time pop_two ! 1)) @ ascii ''%''"
proof -
  let ?rep = "\<lparr>city = [0x9AD8, 0x96C4, 0x5E02], updateTime = ascii ''forecast'',
             forecasts =
               [\<lparr>startTime = ascii ''06:00'', endTime = ascii ''18:00'',
                 weather = ascii ''cloudy'', rain = ascii ''20%'', minTemp = [],
                 maxTemp = [], comfort = [], windSpeed = []\<rparr>,
                \<lparr>startTime = ascii ''18:00'', endTime = ascii ''06:00'',
                 weather = ascii ''rain'', rain = ascii ''70%'', minTemp = [],
                 maxTemp = [], comfort = [], windSpeed = []\<rparr>]\<rparr>"
  have k: "ascii ''key'' \<noteq> []" by (simp add: ascii_def)
  have res: "snd (getWeather (Some (ascii ''key'')) (fixture (payload [wx_two, uvi_two, pop_two]))
            (Some (Str [0x9AD8, 0x96C4, 0x5E02]))) = Inr ?rep"
    by (simp add: getWeather_eval fixture_defs)
  have i: "1 < length (forecasts ?rep)" by simp
  have els: "weatherElement \<lparr>locationName = [0x9AD8, 0x96C4, 0x5E02],
      weatherElement = [wx_two, uvi_two, pop_two]\<rparr> = wx_two # [uvi_two, pop_two]"
    by simp
  from forecast_fields_routed [OF k fixture_sent [OF k] fixture_def payload_location els res i]
  have routed: "rain (forecasts ?rep ! 1) =
        (let ws = filter (\<lambda>e. elementName e = ascii ''PoP'') [wx_two, uvi_two, pop_two]
         in if ws = [] then [] else parameterName (parameter (time (last ws) ! 1)) @ ascii ''%'')"
    by simp
  have val: "rain (forecasts ?rep ! 1) = parameterName (parameter (time pop_two ! 1)) @ ascii ''%''"
    by (simp add: fixture_defs ascii_def)
  from routed k res val show ?thesis by simp
qed

subsection \<open>The two errors that getWeather throws itself\<close>

text \<open>
  C5: with no key configured (the variable unset, or set to the empty string)
  \<open>getWeather\<close> sends no request and throws the object with status 500 and the fixed
  message, whatever the location and the provider; the handler answers with status 500.
\<close>

theorem getWeather_without_key:
  "getWeather None axios_get arg
     = ([], Inl (Thrown 500 [0x4F3A, 0x670D, 0x5668, 0x8A2D, 0x5B9A, 0x932F, 0x8AA4]
                   [0x8ACB, 0x5728, 0x20, 0x2E, 0x65, 0x6E, 0x76, 0x20, 0x6A94, 0x6848, 0x4E2D,
                    0x8A2D, 0x5B9A, 0x20, 0x43, 0x57, 0x41, 0x5F, 0x41, 0x50, 0x49, 0x5F, 0x4B,
                    0x45, 0x59]))
   \<and> getWeather (Some []) axios_get arg = getWeather None axios_get arg
   \<and> handleGetWeather st None axios_get req
     = ([], \<lparr>status_code = 500,
             body = Failure (Some [0x4F3A, 0x670D, 0x5668, 0x8A2D, 0x5B9A, 0x932F, 0x8AA4])
                      (Some [0x8ACB, 0x5728, 0x20, 0x2E, 0x65, 0x6E, 0x76, 0x20, 0x6A94, 0x6848,
                             0x4E2D, 0x8A2D, 0x5B9A, 0x20, 0x43, 0x57, 0x41, 0x5F, 0x41, 0x50, 0x49,
                             0x5F, 0x4B, 0x45, 0x59])
                      None\<rparr>)"
  by (simp add: getWeather_def handleGetWeather_def missing_key_error_def Let_def)

text \<open>
  C6: when the provider answers the request with a response whose list of location
  records is empty, \<open>getWeather\<close> throws the object with status 404, whose message has
  the requested location between its two fixed parts (the location itself when it is a
  string), and returns no report; the handler answers with status 404.
\<close>

theorem getWeather_no_location_record:
  assumes "k \<noteq> []"
    and "fst (getWeather (Some k) axios_get (Some loc)) = [rq]"
    and "axios_get rq = Resolved response"
    and "location (records (data response)) = []"
  shows "snd (getWeather (Some k) axios_get (Some loc))
      = Inl (Thrown 404 [0x67E5, 0x7121, 0x8CC7, 0x6599]
               ([0x7121, 0x6CD5, 0x53D6, 0x5F97, 0x20] @ template_string loc
                @ [0x20, 0x7684, 0x5929, 0x6C23, 0x8CC7, 0x6599]))
    \<and> (\<forall>name. loc = Str name \<longrightarrow> template_string loc = name)
    \<and> (\<forall>rep. snd (getWeather (Some k) axios_get (Some loc)) \<noteq> Inr rep)
    \<and> status_code (catch_block (Thrown 404 [0x67E5, 0x7121, 0x8CC7, 0x6599]
               ([0x7121, 0x6CD5, 0x53D6, 0x5F97, 0x20] @ template_string loc
                @ [0x20, 0x7684, 0x5929, 0x6C23, 0x8CC7, 0x6599]))) = 404"
  using getWeather_sent [OF assms(1-3)] assms(4)
  by (simp add: normalize_response_def)

theorem getWeather_no_location_record_witness:
  "ascii ''key'' \<noteq> []
   \<and> location (records (data no_location)) = []
   \<and> snd (getWeather (Some (ascii ''key'')) (fixture no_location) (Some (Str [0x9AD8, 0x96C4, 0x5E02])))
      = Inl (Thrown 404 [0x67E5, 0x7121, 0x8CC7, 0x6599]
               [0x7121, 0x6CD5, 0x53D6, 0x5F97, 0x20, 0x9AD8, 0x96C4, 0x5E02,
                0x20, 0x7684, 0x5929, 0x6C23, 0x8CC7, 0x6599])"
proof -
  have k: "ascii ''key'' \<noteq> []" by (simp add: ascii_def)
  have none: "location (records (data no_location)) = []" by (simp add: no_location_def)
  from getWeather_no_location_record [OF k fixture_sent [OF k] fixture_def none] k none
  show ?thesis by simp
qed

subsection \<open>The read that is not guarded\<close>

text \<open>
  C8: for the record whose elements are \<open>Wx\<close> with two time entries and then \<open>PoP\<close> with
  one, \<open>getWeather\<close> sends the request and throws the \<open>TypeError\<close> of the read
  \<open>element.time[i].parameter\<close>, which is none of its own two objects and not the
  rejection of the request. In general, for a response with a location record that has
  a weather element, \<open>getWeather\<close> returns a report exactly when no element has fewer
  time entries than the first, and throws that \<open>TypeError\<close> when one has.
\<close>

theorem unguarded_time_read:
  "length (time pop_one) < length (time wx_two)
   \<and> getWeather (Some (ascii ''key'')) (fixture (payload [wx_two, pop_one]))
        (Some (Str [0x9AD8, 0x96C4, 0x5E02]))
      = ([\<lparr>url = ascii ''https://opendata.cwa.gov.tw/api/v1/rest/datastore/F-C0032-001'',
            param_Authorization = ascii ''key'',
            param_locationName = Str [0x9AD8, 0x96C4, 0x5E02]\<rparr>],
         Inl (TypeError ''parameter''))
   \<and> (\<forall>k axios_get loc rq response locationData others first rest.
         k \<noteq> [] \<and> fst (getWeather (Some k) axios_get (Some loc)) = [rq] \<and>
         axios_get rq = Resolved response \<and>
         location (records (data response)) = locationData # others \<and>
         weatherElement locationData = first # rest
         \<longrightarrow> ((\<exists>rep. snd (getWeather (Some k) axios_get (Some loc)) = Inr rep)
                 \<longleftrightarrow> (\<forall>e\<in>set rest. length (time first) \<le> length (time e)))
             \<and> ((\<exists>e\<in>set rest. length (time e) < length (time first))
                 \<longrightarrow> snd (getWeather (Some k) axios_get (Some loc))
                       = Inl (TypeError ''parameter'')))"
proof (intro conjI allI impI)
  show "length (time pop_one) < length (time wx_two)"
    by (simp add: pop_one_def wx_two_def)
next
  show "getWeather (Some (ascii ''key'')) (fixture (payload [wx_two, pop_one]))
        (Some (Str [0x9AD8, 0x96C4, 0x5E02]))
      = ([\<lparr>url = ascii ''https://opendata.cwa.gov.tw/api/v1/rest/datastore/F-C0032-001'',
            param_Authorization = ascii ''key'',
            param_locationName = Str [0x9AD8, 0x96C4, 0x5E02]\<rparr>],
         Inl (TypeError ''parameter''))"
    by (simp add: getWeather_eval fixture_defs)
next
  fix k axios_get loc rq response locationData others first rest
  assume h: "k \<noteq> [] \<and> fst (getWeather (Some k) axios_get (Some loc)) = [rq] \<and>
         axios_get rq = Resolved response \<and>
         location (records (data response)) = locationData # others \<and>
         weatherElement locationData = first # rest"
  then have "k \<noteq> []" and "fst (getWeather (Some k) axios_get (Some loc)) = [rq]"
    and "axios_get rq = Resolved response"
    by simp_all
  then have res: "snd (getWeather (Some k) axios_get (Some loc)) = normalize_response loc response"
    by (rule getWeather_sent)
  from h have shape: "location (records (data response)) = locationData # others"
    "weatherElement locationData = first # rest" by simp_all
  let ?n = "length (time first)"
  have fails: "normalize_response loc response = Inl (TypeError ''parameter'')"
    if "\<exists>e\<in>set rest. length (time e) < ?n"
  proof -
    from that obtain e where "e \<in> set rest" "length (time e) < ?n" by blast
    then have "\<exists>e\<in>set (first # rest). length (time e) < ?n" "0 < ?n"
      by (auto intro: gr_implies_not0 simp del: length_greater_0_conv)
    then have "for_loop (first # rest) first ?n 0 [] = Inl (TypeError ''parameter'')"
      by (rule for_loop_fails)
    then show ?thesis by (simp add: normalize_Inl [OF shape])
  qed
  have returns: "\<exists>rep. normalize_response loc response = Inr rep"
    if "\<forall>e\<in>set rest. ?n \<le> length (time e)"
  proof -
    from that have "\<forall>e\<in>set (first # rest). ?n \<le> length (time e)" by simp
    then obtain fs where "for_loop (first # rest) first ?n 0 [] = Inr fs"
      using for_loop_total by blast
    then show ?thesis using normalize_Inr [OF shape] by blast
  qed
  show "(\<exists>rep. snd (getWeather (Some k) axios_get (Some loc)) = Inr rep)
          \<longleftrightarrow> (\<forall>e\<in>set rest. ?n \<le> length (time e))"
  proof
    assume "\<exists>rep. snd (getWeather (Some k) axios_get (Some loc)) = Inr rep"
    then obtain rep where rep: "normalize_response loc response = Inr rep"
      unfolding res by blast
    show "\<forall>e\<in>set rest. ?n \<le> length (time e)"
    proof (rule ccontr)
      assume "\<not> (\<forall>e\<in>set rest. ?n \<le> length (time e))"
      then have "\<exists>e\<in>set rest. length (time e) < ?n" by (simp add: not_le)
      from fails [OF this] rep show False by simp
    qed
  next
    assume "\<forall>e\<in>set rest. ?n \<le> length (time e)"
    from returns [OF this] show "\<exists>rep. snd (getWeather (Some k) axios_get (Some loc)) = Inr rep"
      unfolding res .
  qed
  assume "\<exists>e\<in>set rest. length (time e) < ?n"
  from fails [OF this]
  show "snd (getWeather (Some k) axios_get (Some loc)) = Inl (TypeError ''parameter'')"
    unfolding res .
qed

theorem unguarded_time_read_witness:
  "ascii ''key'' \<noteq> []
   \<and> length (time pop_one) < length (time wx_two)
   \<and> snd (getWeather (Some (ascii ''key'')) (fixture (payload [wx_two, uvi_two, pop_one]))
            (Some (Str [0x9AD8, 0x96C4, 0x5E02])))
      = Inl (TypeError ''parameter'')
   \<and> catch_block (TypeError ''parameter'') = server_error"
proof -
  have k: "ascii ''key'' \<noteq> []" by (simp add: ascii_def)
  have short: "\<exists>e\<in>set [uvi_two, pop_one]. length (time e) < length (time wx_two)"
    by (simp add: uvi_two_def pop_one_def wx_two_def)
  have els: "weatherElement \<lparr>locationName = [0x9AD8, 0x96C4, 0x5E02],
      weatherElement = [wx_two, uvi_two, pop_one]\<rparr> = wx_two # [uvi_two, pop_one]"
    by simp
  note hyps = k fixture_sent [OF k, of "payload [wx_two, uvi_two, pop_one]" "Str [0x9AD8, 0x96C4, 0x5E02]"]
    fixture_def [of "payload [wx_two, uvi_two, pop_one]"]
    payload_location [of "[wx_two, uvi_two, pop_one]"] els
  from unguarded_time_read hyps short
  have "snd (getWeather (Some (ascii ''key'')) (fixture (payload [wx_two, uvi_two, pop_one]))
            (Some (Str [0x9AD8, 0x96C4, 0x5E02]))) = Inl (TypeError ''parameter'')"
    by blast
  moreover have "length (time pop_one) < length (time wx_two)"
    by (simp add: pop_one_def wx_two_def)
  moreover have "catch_block (TypeError ''parameter'') = server_error"
    by simp
  ultimately show ?thesis using k by (intro conjI)
qed

section \<open>The two weather routes\<close>

lemma resolve_kaohsiung:
  assumes "objects st locations_ref = locations"
  shows "getLocationName st (Some (ascii ''kaohsiung'')) = Str [0x9AD8, 0x96C4, 0x5E02]"
    and "getLocationName st (Some [0x9AD8, 0x96C4, 0x5E02]) = Null"
  by (simp_all add: getLocationName_def assms locations_def get_prop_def object_prototype_def
      ascii_def trim_def toLowerCase_def lower_unit_def isWhiteSpace_def)

text \<open>
  C10: with the table in place, the route \<open>/api/weather/kaohsiung\<close> answers as
  \<open>handleGetWeather\<close> does for the parameter \<open>kaohsiung\<close>, and that answers as it does for
  the name that \<open>kaohsiung\<close> resolves to: all three send what \<open>getWeather\<close> sends for that
  name and answer from its result.
\<close>

theorem kaohsiung_route_equivalent:
  assumes "objects st locations_ref = locations"
  shows "kaohsiung_route st key axios_get req
      = handleGetWeather st key axios_get \<lparr>params_location = Some (ascii ''kaohsiung'')\<rparr>
    \<and> handleGetWeather st key axios_get \<lparr>params_location = Some (ascii ''kaohsiung'')\<rparr>
      = handleGetWeather st key axios_get \<lparr>params_location = Some [0x9AD8, 0x96C4, 0x5E02]\<rparr>
    \<and> handleGetWeather st key axios_get \<lparr>params_location = Some (ascii ''kaohsiung'')\<rparr>
      = (case getWeather key axios_get (Some (Str [0x9AD8, 0x96C4, 0x5E02])) of
           (sent, Inr weatherData) \<Rightarrow> (sent, \<lparr>status_code = 200, body = Success weatherData\<rparr>)
         | (sent, Inl err) \<Rightarrow> (sent, catch_block err))"
proof -
  have a: "handleGetWeather st key axios_get \<lparr>params_location = Some (ascii ''kaohsiung'')\<rparr>
      = (case getWeather key axios_get (Some (Str [0x9AD8, 0x96C4, 0x5E02])) of
           (sent, Inr weatherData) \<Rightarrow> (sent, \<lparr>status_code = 200, body = Success weatherData\<rparr>)
         | (sent, Inl err) \<Rightarrow> (sent, catch_block err))"
    unfolding handleGetWeather_def isValidLocation_def Let_def
    by (simp add: resolve_kaohsiung [OF assms]) (simp add: ascii_def)
  have b: "handleGetWeather st key axios_get \<lparr>params_location = Some [0x9AD8, 0x96C4, 0x5E02]\<rparr>
      = (case getWeather key axios_get (Some (Str [0x9AD8, 0x96C4, 0x5E02])) of
           (sent, Inr weatherData) \<Rightarrow> (sent, \<lparr>status_code = 200, body = Success weatherData\<rparr>)
         | (sent, Inl err) \<Rightarrow> (sent, catch_block err))"
    unfolding handleGetWeather_def isValidLocation_def Let_def
    by (simp add: resolve_kaohsiung [OF assms])
  have c: "kaohsiung_route st key axios_get req
      = handleGetWeather st key axios_get \<lparr>params_location = Some (ascii ''kaohsiung'')\<rparr>"
    by (cases req) (simp add: kaohsiung_route_def)
  from a b c show ?thesis by simp
qed


theorem kaohsiung_route_equivalent_witness:
  "objects module_store locations_ref = locations
   \<and> kaohsiung_route module_store (Some (ascii ''key'')) (fixture (payload [wx_two, pop_two]))
        \<lparr>params_location = None\<rparr>
      = handleGetWeather module_store (Some (ascii ''key'')) (fixture (payload [wx_two, pop_two]))
          \<lparr>params_location = Some [0x9AD8, 0x96C4, 0x5E02]\<rparr>
   \<and> status_code (snd (handleGetWeather module_store (Some (ascii ''key''))
          (fixture (payload [wx_two, pop_two]))
          \<lparr>params_location = Some [0x9AD8, 0x96C4, 0x5E02]\<rparr>)) = 200"
proof -
  have tbl: "objects module_store locations_ref = locations"
    by (simp add: module_store_def)
  have ok: "status_code (snd (case getWeather (Some (ascii ''key''))
          (fixture (payload [wx_two, pop_two])) (Some (Str [0x9AD8, 0x96C4, 0x5E02])) of
           (sent, Inr weatherData) \<Rightarrow> (sent, \<lparr>status_code = 200, body = Success weatherData\<rparr>)
         | (sent, Inl err) \<Rightarrow> (sent, catch_block err))) = 200"
    by (simp add: getWeather_eval fixture_defs)
  note eq = kaohsiung_route_equivalent [OF tbl, of "Some (ascii ''key'')"
      "fixture (payload [wx_two, pop_two])" "\<lparr>params_location = None\<rparr>"]
  note e1 = eq [THEN conjunct1]
    and e2 = eq [THEN conjunct2, THEN conjunct1]
    and e3 = eq [THEN conjunct2, THEN conjunct2]
  have route: "kaohsiung_route module_store (Some (ascii ''key''))
        (fixture (payload [wx_two, pop_two])) \<lparr>params_location = None\<rparr>
      = handleGetWeather module_store (Some (ascii ''key'')) (fixture (payload [wx_two, pop_two]))
          \<lparr>params_location = Some [0x9AD8, 0x96C4, 0x5E02]\<rparr>"
    using e1 e2 by (rule trans)
  have native: "handleGetWeather module_store (Some (ascii ''key''))
        (fixture (payload [wx_two, pop_two])) \<lparr>params_location = Some [0x9AD8, 0x96C4, 0x5E02]\<rparr>
      = (case getWeather (Some (ascii ''key''))
          (fixture (payload [wx_two, pop_two])) (Some (Str [0x9AD8, 0x96C4, 0x5E02])) of
           (sent, Inr weatherData) \<Rightarrow> (sent, \<lparr>status_code = 200, body = Success weatherData\<rparr>)
         | (sent, Inl err) \<Rightarrow> (sent, catch_block err))"
    using e2 [symmetric] e3 by (rule trans)
  have answer: "status_code (snd (handleGetWeather module_store (Some (ascii ''key''))
          (fixture (payload [wx_two, pop_two]))
          \<lparr>params_location = Some [0x9AD8, 0x96C4, 0x5E02]\<rparr>)) = 200"
    unfolding native by (rule ok)
  from tbl route answer show ?thesis by (intro conjI)
qed

end
